theory Spec2Isabelle
  imports Complex_Main
begin

section \<open>Exceptions\<close>

text \<open>
  Every exception the two camera modules can raise is a value. \<open>CameraError\<close> is the
  class defined in \<^verbatim>\<open>sentech_usb.py\<close> and imported by \<^verbatim>\<open>mac_opencv.py\<close>; the others are
  Python's own (an unbound global name, \<^verbatim>\<open>1.0 / None\<close>, \<^verbatim>\<open>1.0 / 0\<close>, a list index out
  of range, a missing attribute) or come from the libraries behind the device handle.
\<close>

datatype error =
    CameraError string
  | NameError string
  | TypeError
  | ZeroDivisionError
  | IndexError
  | AttributeError string
  | Cv2Error
  | SDKError string

section \<open>Frames\<close>

text \<open>
  A frame is a numpy array of two dimensions (rows of values) or of three (rows of
  colour pixels, three channels each). The number of columns is kept beside the rows, as
  numpy's \<^verbatim>\<open>shape\<close> has it also for an array of no rows. Python integers are \<open>int\<close>; time
  stamps and the frame rate are floats, idealised as \<open>real\<close>.
\<close>

datatype frame =
    Frame2 nat "int list list"
  | Frame3 nat "(int \<times> int \<times> int) list list"

fun ndim :: "frame \<Rightarrow> nat" where
  "ndim (Frame2 w rows) = 2"
| "ndim (Frame3 w rows) = 3"

fun nrows :: "frame \<Rightarrow> nat" where
  "nrows (Frame2 w rows) = length rows"
| "nrows (Frame3 w rows) = length rows"

fun ncols :: "frame \<Rightarrow> nat" where
  "ncols (Frame2 w rows) = w"
| "ncols (Frame3 w rows) = w"

definition shape :: "frame \<Rightarrow> nat \<times> nat" where
  "shape f = (nrows f, ncols f)"


text \<open>
  Python's slice \<^verbatim>\<open>xs[a:b]\<close> on a sequence of length \<open>n\<close>: a negative bound counts from
  the end, both bounds are clamped to \<open>0..n\<close>, and the slice is empty when the upper
  bound does not exceed the lower one.
\<close>

definition slice_bound :: "nat \<Rightarrow> int \<Rightarrow> nat" where
  "slice_bound n i = (if i < 0 then nat (max 0 (i + int n)) else min (nat i) n)"

definition py_slice :: "int \<Rightarrow> int \<Rightarrow> 'a list \<Rightarrow> 'a list" where
  "py_slice a b xs =
     (let lo = slice_bound (length xs) a; hi = slice_bound (length xs) b
      in take (hi - lo) (drop lo xs))"

text \<open>numpy's \<^verbatim>\<open>frame[a:b, c:d]\<close>: rows \<open>a:b\<close>, and of each of them columns \<open>c:d\<close>.\<close>

fun np_slice2 :: "frame \<Rightarrow> int \<Rightarrow> int \<Rightarrow> int \<Rightarrow> int \<Rightarrow> frame" where
  "np_slice2 (Frame2 w rows) a b c d =
     Frame2 (slice_bound w d - slice_bound w c) (map (py_slice c d) (py_slice a b rows))"
| "np_slice2 (Frame3 w rows) a b c d =
     Frame3 (slice_bound w d - slice_bound w c) (map (py_slice c d) (py_slice a b rows))"

text \<open>\<^verbatim>\<open>xs[k]\<close> for a constant index \<open>k \<ge> 0\<close>: IndexError beyond the end.\<close>

definition py_get :: "'a list \<Rightarrow> nat \<Rightarrow> error + 'a" where
  "py_get xs k = (if k < length xs then Inr (xs ! k) else Inl IndexError)"

definition bind_err :: "error + 'a \<Rightarrow> ('a \<Rightarrow> error + 'b) \<Rightarrow> error + 'b" where
  "bind_err m f = (case m of Inl e \<Rightarrow> Inl e | Inr x \<Rightarrow> f x)"

text \<open>
  \<^verbatim>\<open>cv2.cvtColor(frame, cv2.COLOR_RGB2BGR)\<close> reverses the three channels of every pixel
  and refuses an array without a channel axis.
\<close>

fun cvtColor_RGB2BGR :: "frame \<Rightarrow> error + frame" where
  "cvtColor_RGB2BGR (Frame3 w rows) = Inr (Frame3 w (map (map (\<lambda>(r, g, b). (b, g, r))) rows))"
| "cvtColor_RGB2BGR (Frame2 w rows) = Inl Cv2Error"

text \<open>\<^verbatim>\<open>np.uint8(array)\<close> casts every value to eight bits, wrapping around.\<close>

fun np_uint8 :: "frame \<Rightarrow> frame" where
  "np_uint8 (Frame2 w rows) = Frame2 w (map (map (\<lambda>v. v mod 256)) rows)"
| "np_uint8 (Frame3 w rows) =
     Frame3 w (map (map (\<lambda>(r, g, b). (r mod 256, g mod 256, b mod 256))) rows)"

section \<open>The outside world\<close>

text \<open>
  \<^verbatim>\<open>time.time()\<close> and the device are the two inputs from outside. The clock is the
  sequence of values successive calls of \<^verbatim>\<open>time.time()\<close> return, the device the sequence
  of outcomes successive acquisition attempts have; \<open>io\<close> counts how many of each have
  been consumed.
\<close>

record io =
  ticks :: nat
  reads :: nat

section \<open>\<^verbatim>\<open>sentech_usb.py\<close>: the SDK backend\<close>

record sentech_args =
  a_device :: int
  a_sdk_path :: "string option"
  a_resolution :: "int list option"
  a_exposure :: "int option"
  a_gain :: "int option"
  a_rotate :: "real option"
  a_crop :: "int list option"
  a_fps :: "real option"
  a_use_tk_display :: bool
  a_display_resize :: "real option"

record sentech_cam =
  cam_id :: int
  sdk_path :: "string option"
  exposure :: "int option"
  gain :: "int option"
  rotate :: "real option"
  crop :: "int list option"
  im_size :: "int \<times> int"
  fps :: "real option"
  use_tk_display :: bool
  display_resize :: real
  next_frame :: real

text \<open>
  \<^verbatim>\<open>set_im_size(res)\<close>, called by the constructor once \<^verbatim>\<open>self.crop\<close> is set. A conditional
  expression evaluates only the branch it selects.
\<close>

definition set_im_size :: "int list option \<Rightarrow> int list option \<Rightarrow> error + int \<times> int" where
  "set_im_size self_crop res =
     (case res of
        None \<Rightarrow> Inl (CameraError ''Resolution is not set!'')
      | Some rs \<Rightarrow>
          if rs = [] then Inl (CameraError ''Resolution is not set!'')
          else
            (case self_crop of
               None \<Rightarrow>
                 bind_err (py_get rs 0) (\<lambda>r0.
                 bind_err (py_get rs 1) (\<lambda>r1. Inr (r0, r1)))
             | Some c \<Rightarrow>
                 bind_err (py_get c 3) (\<lambda>c3.
                 bind_err (py_get c 2) (\<lambda>c2.
                 bind_err (py_get c 1) (\<lambda>c1.
                 bind_err (py_get c 0) (\<lambda>c0. Inr (c3 - c2, c1 - c0)))))))"

text \<open>\<^verbatim>\<open>SentechCam.__init__\<close>. An empty list and \<^verbatim>\<open>None\<close> are both falsy.\<close>

definition SentechCam_init :: "sentech_args \<Rightarrow> error + sentech_cam" where
  "SentechCam_init a =
     (let self_crop = (case a_crop a of None \<Rightarrow> None | Some c \<Rightarrow> if c = [] then None else Some c)
      in case set_im_size self_crop (a_resolution a) of
           Inl e \<Rightarrow> Inl e
         | Inr sz \<Rightarrow>
             Inr \<lparr> cam_id = a_device a,
                   sdk_path = a_sdk_path a,
                   exposure = a_exposure a,
                   gain = a_gain a,
                   rotate = a_rotate a,
                   crop = self_crop,
                   im_size = sz,
                   fps = a_fps a,
                   use_tk_display = a_use_tk_display a,
                   display_resize =
                     (case a_display_resize a of
                        None \<Rightarrow> 1
                      | Some d \<Rightarrow> if d = 0 then 1 else d),
                   next_frame = 0 \<rparr>)"

text \<open>
  \<^verbatim>\<open>set_capture_device\<close>: the settings the camera handle has received. A tuple of two
  entries is truthy, so the image shape is always sent; exposure and gain only when they
  are neither \<^verbatim>\<open>None\<close> nor zero.
\<close>

record sdk_handle =
  h_image_shape :: "(int \<times> int) option"
  h_exposure :: "int option"
  h_gain :: "int option"

definition set_capture_device :: "sentech_cam \<Rightarrow> sdk_handle" where
  "set_capture_device s =
     (let cap = \<lparr> h_image_shape = None, h_exposure = None, h_gain = None \<rparr>;
          cap = cap\<lparr> h_image_shape := Some (fst (im_size s), snd (im_size s)) \<rparr>;
          cap = (case exposure s of
                   None \<Rightarrow> cap
                 | Some e \<Rightarrow> if e \<noteq> 0 then cap\<lparr> h_exposure := Some e \<rparr> else cap);
          cap = (case gain s of
                   None \<Rightarrow> cap
                 | Some g \<Rightarrow> if g \<noteq> 0 then cap\<lparr> h_gain := Some g \<rparr> else cap)
      in cap)"

text \<open>\<^verbatim>\<open>get_image\<close>: one grab from the SDK handle, cast to eight bits.\<close>

definition get_image :: "(nat \<Rightarrow> error + frame) \<Rightarrow> io \<Rightarrow> (error + frame) \<times> io" where
  "get_image cap w =
     (case cap (reads w) of
        Inl e \<Rightarrow> (Inl e, w\<lparr> reads := Suc (reads w) \<rparr>)
      | Inr raw \<Rightarrow> (Inr (np_uint8 raw), w\<lparr> reads := Suc (reads w) \<rparr>))"

text \<open>
  \<^verbatim>\<open>SentechCam.get_image_on_time\<close>. The loop polls the clock until a reading passes
  \<^verbatim>\<open>self.next_frame\<close>; \<^verbatim>\<open>get_image\<close> never returns \<^verbatim>\<open>None\<close>, so the iteration that
  acquires is the last one; \<open>acquire\<close> is the body of its \<^verbatim>\<open>if\<close>. A loop that polls
  forever has the value \<open>None\<close>. An exception leaves the loop before
  \<^verbatim>\<open>self.next_frame\<close> is assigned.
\<close>

definition acquire :: "real \<Rightarrow> (nat \<Rightarrow> error + frame) \<Rightarrow> io \<Rightarrow> sentech_cam
    \<Rightarrow> (error + frame \<times> real) \<times> sentech_cam \<times> io" where
  "acquire cur_time cap w s =
     (case get_image cap w of
        (Inl e, w') \<Rightarrow> (Inl e, s, w')
      | (Inr frame, w') \<Rightarrow>
          (case fps s of
             None \<Rightarrow> (Inl TypeError, s, w')
           | Some F \<Rightarrow>
               if F = 0 then (Inl ZeroDivisionError, s, w')
               else (Inr (frame, cur_time),
                     s\<lparr> next_frame := max (next_frame s + 1 / F) (cur_time + 0.5 / F) \<rparr>,
                     w')))"

partial_function (option) SentechCam_get_image_on_time ::
  "(nat \<Rightarrow> real) \<Rightarrow> (nat \<Rightarrow> error + frame) \<Rightarrow> io \<Rightarrow> sentech_cam
    \<Rightarrow> ((error + frame \<times> real) \<times> sentech_cam \<times> io) option" where
  "SentechCam_get_image_on_time clock cap w s =
     (let cur_time = clock (ticks w); w' = w\<lparr> ticks := Suc (ticks w) \<rparr>
      in if cur_time > next_frame s then Some (acquire cur_time cap w' s)
         else SentechCam_get_image_on_time clock cap w' s)"

text \<open>
  A run of the application loop: \<open>n\<close> calls one after the other, each starting where
  the one before left the clock and the device. It collects the time stamps of the frames
  returned; a call that raised is followed by the next call, as a caller that retries
  would do.
\<close>

fun SentechCam_run :: "(nat \<Rightarrow> real) \<Rightarrow> (nat \<Rightarrow> error + frame) \<Rightarrow> nat \<Rightarrow> io \<Rightarrow> sentech_cam
    \<Rightarrow> real list option" where
  "SentechCam_run clock cap 0 w s = Some []"
| "SentechCam_run clock cap (Suc n) w s =
     (case SentechCam_get_image_on_time clock cap w s of
        None \<Rightarrow> None
      | Some (Inl e, s', w') \<Rightarrow> SentechCam_run clock cap n w' s'
      | Some (Inr (frame, timestamp), s', w') \<Rightarrow>
          map_option ((#) timestamp) (SentechCam_run clock cap n w' s'))"

section \<open>\<^verbatim>\<open>mac_opencv.py\<close>: the generic video backend\<close>

text \<open>
  The fields of a \<^verbatim>\<open>Mac_OpenCVCam\<close> that its methods read. \<^verbatim>\<open>rotate\<close>, \<^verbatim>\<open>crop\<close> and
  \<^verbatim>\<open>fps\<close> are stored by the constructor of the parent class \<^verbatim>\<open>Camera\<close>, which is
  imported from the package and is a parameter here; \<^verbatim>\<open>cv2_color\<close> is what the device
  reported for \<^verbatim>\<open>CAP_PROP_MODE\<close> when it was opened; \<^verbatim>\<open>last_cap_read\<close> does not exist
  before it is first assigned.
\<close>

record mac_args =
  m_device :: int
  m_resolution :: "int list option"
  m_auto_exposure :: real
  m_exposure :: real
  m_gain :: real
  m_rotate :: "real option"
  m_crop :: "int list option"
  m_fps :: "real option"
  m_display :: bool
  m_display_resize :: real

record mac_cam =
  video :: bool
  mac_rotate :: "real option"
  mac_crop :: "int list option"
  mac_fps :: "real option"
  auto_exposure :: real
  mac_gain :: real
  cv2_color :: real
  last_cap_read :: "real option"

text \<open>
  \<^verbatim>\<open>Mac_OpenCVCam.__init__\<close>. The module imports \<^verbatim>\<open>Camera\<close> and \<^verbatim>\<open>CameraError\<close> only, so
  evaluating the name \<^verbatim>\<open>DLCLiveCameraError\<close> in the \<^verbatim>\<open>else\<close> branch raises NameError
  before any exception object is built. The attributes the constructor assigns itself
  are written into the object that the parent's constructor gives back.
\<close>

definition Mac_OpenCVCam_init :: "(int \<Rightarrow> mac_args \<Rightarrow> error + mac_cam) \<Rightarrow> mac_args
    \<Rightarrow> error + mac_cam" where
  "Mac_OpenCVCam_init Camera_init a =
     (if m_device a \<noteq> - 1 then
        (case Camera_init (m_device a) a of
           Inl e \<Rightarrow> Inl e
         | Inr self \<Rightarrow>
             Inr (self\<lparr> video := False, auto_exposure := m_auto_exposure a,
                        mac_gain := m_gain a \<rparr>))
      else Inl (NameError ''DLCLiveCameraError''))"

text \<open>
  The wait of \<^verbatim>\<open>get_image_on_time\<close> for a video source:
  \<^verbatim>\<open>while time.time() - self.last_cap_read < (1.0 / self.fps): pass\<close>.
\<close>

partial_function (option) wait_for_video ::
  "(nat \<Rightarrow> real) \<Rightarrow> io \<Rightarrow> mac_cam \<Rightarrow> (error option \<times> io) option" where
  "wait_for_video clock w s =
     (let now = clock (ticks w); w' = w\<lparr> ticks := Suc (ticks w) \<rparr>
      in case last_cap_read s of
           None \<Rightarrow> Some (Some (AttributeError ''last_cap_read''), w')
         | Some l \<Rightarrow>
             (case mac_fps s of
                None \<Rightarrow> Some (Some TypeError, w')
              | Some F \<Rightarrow>
                  if F = 0 then Some (Some ZeroDivisionError, w')
                  else if now - l < 1 / F then wait_for_video clock w' s
                  else Some (None, w')))"

text \<open>
  \<^verbatim>\<open>Mac_OpenCVCam.get_image_on_time\<close>, with \<^verbatim>\<open>imutils.rotate_bound\<close> as a parameter. One
  \<^verbatim>\<open>cap.read()\<close> gives \<^verbatim>\<open>(ret, frame)\<close>; the frame is rotated, cropped and converted,
  then the clock is read for \<^verbatim>\<open>self.last_cap_read\<close>, which is also the time stamp
  returned.
\<close>

definition Mac_OpenCVCam_get_image_on_time ::
  "(frame \<Rightarrow> real \<Rightarrow> frame) \<Rightarrow> (nat \<Rightarrow> real) \<Rightarrow> (nat \<Rightarrow> bool \<times> frame) \<Rightarrow> io \<Rightarrow> mac_cam
    \<Rightarrow> ((error + frame \<times> real) \<times> mac_cam \<times> io) option" where
  "Mac_OpenCVCam_get_image_on_time rotate_bound clock cap w s =
     (case (if video s then wait_for_video clock w s else Some (None, w)) of
        None \<Rightarrow> None
      | Some (Some e, w1) \<Rightarrow> Some (Inl e, s, w1)
      | Some (None, w1) \<Rightarrow>
          (let (ret, frame) = cap (reads w1);
               w2 = w1\<lparr> reads := Suc (reads w1) \<rparr>
           in if ret then
                (let frame =
                       (case mac_rotate s of
                          None \<Rightarrow> frame
                        | Some r \<Rightarrow> if r \<noteq> 0 then rotate_bound frame r else frame)
                 in case
                      (case mac_crop s of
                         None \<Rightarrow> Inr frame
                       | Some c \<Rightarrow>
                           if c \<noteq> [] then
                             bind_err (py_get c 2) (\<lambda>c2.
                             bind_err (py_get c 3) (\<lambda>c3.
                             bind_err (py_get c 0) (\<lambda>c0.
                             bind_err (py_get c 1) (\<lambda>c1.
                               Inr (np_slice2 frame c2 c3 c0 c1)))))
                           else Inr frame)
                    of
                      Inl e \<Rightarrow> Some (Inl e, s, w2)
                    | Inr frame \<Rightarrow>
                        (case (if ndim frame = 3 \<and> cv2_color s = 1
                               then cvtColor_RGB2BGR frame else Inr frame)
                         of
                           Inl e \<Rightarrow> Some (Inl e, s, w2)
                         | Inr frame \<Rightarrow>
                             (let t = clock (ticks w2)
                              in Some (Inr (frame, t),
                                       s\<lparr> last_cap_read := Some t \<rparr>,
                                       w2\<lparr> ticks := Suc (ticks w2) \<rparr>))))
              else Some (Inl (CameraError
                     ''OpenCV VideoCapture.read did not return an image!''), s, w2)))"

section \<open>The words of the specification\<close>


fun swap_channels :: "frame \<Rightarrow> frame" where
  "swap_channels (Frame3 w rows) = Frame3 w (map (map (\<lambda>(r, g, b). (b, g, r))) rows)"
| "swap_channels (Frame2 w rows) = Frame2 w rows"




definition rotated :: "(frame \<Rightarrow> real \<Rightarrow> frame) \<Rightarrow> real option \<Rightarrow> frame \<Rightarrow> frame" where
  "rotated rotate_bound rotation_degrees raw =
     (case rotation_degrees of
        None \<Rightarrow> raw
      | Some d \<Rightarrow> if d \<noteq> 0 then rotate_bound raw d else raw)"

text \<open>
  The throttled poll with the time stamp taken as the specification words it: read from
  the clock once more, after \<^verbatim>\<open>next_frame\<close> has been updated.
\<close>

definition spec_acquire :: "(nat \<Rightarrow> real) \<Rightarrow> real \<Rightarrow> (nat \<Rightarrow> error + frame) \<Rightarrow> io \<Rightarrow> sentech_cam
    \<Rightarrow> (error + frame \<times> real) \<times> sentech_cam \<times> io" where
  "spec_acquire clock now cap w s =
     (case get_image cap w of
        (Inl e, w') \<Rightarrow> (Inl e, s, w')
      | (Inr frame, w') \<Rightarrow>
          (case fps s of
             None \<Rightarrow> (Inl TypeError, s, w')
           | Some F \<Rightarrow>
               if F = 0 then (Inl ZeroDivisionError, s, w')
               else (Inr (frame, clock (ticks w')),
                     s\<lparr> next_frame := max (next_frame s + 1 / F) (now + 0.5 / F) \<rparr>,
                     w'\<lparr> ticks := Suc (ticks w') \<rparr>)))"

partial_function (option) spec_get_image_on_time ::
  "(nat \<Rightarrow> real) \<Rightarrow> (nat \<Rightarrow> error + frame) \<Rightarrow> io \<Rightarrow> sentech_cam
    \<Rightarrow> ((error + frame \<times> real) \<times> sentech_cam \<times> io) option" where
  "spec_get_image_on_time clock cap w s =
     (let now = clock (ticks w); w' = w\<lparr> ticks := Suc (ticks w) \<rparr>
      in if now > next_frame s then Some (spec_acquire clock now cap w' s)
         else spec_get_image_on_time clock cap w' s)"

section \<open>Concrete inputs\<close>

text \<open>
  A constructor call with a resolution and a frame rate and nothing else set, and the
  camera it builds; a clock that advances by 0.04 s from one reading to the next; devices
  that always deliver the same frame, or always fail.
\<close>

definition args0 :: sentech_args where
  "args0 = \<lparr> a_device = 0, a_sdk_path = None, a_resolution = Some [640, 480],
             a_exposure = None, a_gain = None, a_rotate = None, a_crop = None,
             a_fps = Some 10, a_use_tk_display = False, a_display_resize = Some 1 \<rparr>"

definition cam0 :: sentech_cam where
  "cam0 = \<lparr> cam_id = 0, sdk_path = None, exposure = None, gain = None, rotate = None,
            crop = None, im_size = (640, 480), fps = Some 10, use_tk_display = False,
            display_resize = 1, next_frame = 0 \<rparr>"

definition w0 :: io where
  "w0 = \<lparr> ticks = 0, reads = 0 \<rparr>"

definition clock0 :: "nat \<Rightarrow> real" where
  "clock0 k = real k * 4 / 100"

definition raw0 :: frame where
  "raw0 = Frame2 2 [[1, 258], [3, 4]]"

definition grab0 :: "nat \<Rightarrow> error + frame" where
  "grab0 k = Inr raw0"

definition grab_fails :: "nat \<Rightarrow> error + frame" where
  "grab_fails k = Inl (SDKError ''grab failed'')"

definition mac0 :: mac_cam where
  "mac0 = \<lparr> video = False, mac_rotate = Some 0, mac_crop = None, mac_fps = Some 30,
            auto_exposure = 0, mac_gain = 0, cv2_color = 1, last_cap_read = None \<rparr>"

definition raw1 :: frame where
  "raw1 = Frame2 2 [[1, 2], [3, 4]]"

definition rgb1 :: frame where
  "rgb1 = Frame3 3 [[(1, 2, 3), (4, 5, 6), (7, 8, 9)],
                     [(10, 11, 12), (13, 14, 15), (16, 17, 18)],
                     [(19, 20, 21), (22, 23, 24), (25, 26, 27)]]"

definition no_rotation :: "frame \<Rightarrow> real \<Rightarrow> frame" where
  "no_rotation f d = f"

definition read1 :: "nat \<Rightarrow> bool \<times> frame" where
  "read1 k = (True, raw1)"

definition read_rgb :: "nat \<Rightarrow> bool \<times> frame" where
  "read_rgb k = (True, rgb1)"

definition read_fails :: "nat \<Rightarrow> bool \<times> frame" where
  "read_fails k = (False, raw1)"

definition grab1 :: "nat \<Rightarrow> error + frame" where
  "grab1 k = Inr raw1"

lemmas world_defs = cam0_def w0_def clock0_def grab0_def raw0_def grab1_def raw1_def
  grab_fails_def mac0_def read1_def read_rgb_def rgb1_def read_fails_def no_rotation_def

section \<open>The constructors\<close>

lemma bind_err_Inr_iff:
  "bind_err m f = Inr y \<longleftrightarrow> (\<exists>x. m = Inr x \<and> f x = Inr y)"
  by (cases m) (simp_all add: bind_err_def)

lemma py_get_Inr_iff: "py_get xs k = Inr x \<longleftrightarrow> k < length xs \<and> x = xs ! k"
  by (auto simp: py_get_def)

lemma bind_err_py_get_not_CameraError:
  "(\<And>x. f x \<noteq> Inl (CameraError msg)) \<Longrightarrow> bind_err (py_get xs k) f \<noteq> Inl (CameraError msg)"
  by (simp add: bind_err_def py_get_def)

lemma set_im_size_CameraError_iff:
  "set_im_size c res = Inl (CameraError ''Resolution is not set!'') \<longleftrightarrow> res = None \<or> res = Some []"
proof (cases res)
  case None
  then show ?thesis by (simp add: set_im_size_def)
next
  case (Some rs)
  show ?thesis
  proof (cases "rs = []")
    case True
    with Some show ?thesis by (simp add: set_im_size_def)
  next
    case False
    have "set_im_size c (Some rs) \<noteq> Inl (CameraError ''Resolution is not set!'')"
      using False
      by (cases c) (simp_all add: set_im_size_def bind_err_py_get_not_CameraError)
    with Some False show ?thesis by simp
  qed
qed

lemma set_im_size_resolution:
  "set_im_size None (Some (w # h # rest)) = Inr (w, h)"
  by (simp add: set_im_size_def bind_err_def py_get_def)

lemma set_im_size_crop:
  "res \<noteq> [] \<Longrightarrow> set_im_size (Some (l # r # t # b # rest)) (Some res) = Inr (b - t, r - l)"
  by (simp add: set_im_size_def bind_err_def py_get_def)

lemma set_im_size_Inr_None:
  "set_im_size None res = Inr sz \<Longrightarrow> \<exists>w h rest. res = Some (w # h # rest) \<and> sz = (w, h)"
  apply (cases res; simp add: set_im_size_def split: if_splits)
  subgoal for rs
    apply (cases rs; simp)
    subgoal for w tl
      by (cases tl; simp add: bind_err_def py_get_def)
    done
  done

lemma set_im_size_Inr_Some:
  "set_im_size (Some c) res = Inr sz \<Longrightarrow>
   \<exists>l r t b rest. c = l # r # t # b # rest \<and> sz = (b - t, r - l)"
proof -
  assume a: "set_im_size (Some c) res = Inr sz"
  then obtain rs where rs: "res = Some rs" "rs \<noteq> []"
    by (cases res) (auto simp: set_im_size_def split: if_splits)
  with a have "3 < length c \<and> sz = (c ! 3 - c ! 2, c ! 1 - c ! 0)"
    by (auto simp: set_im_size_def bind_err_Inr_iff py_get_Inr_iff)
  then have len: "3 < length c" and sz: "sz = (c ! 3 - c ! 2, c ! 1 - c ! 0)" by simp_all
  from len obtain l r t b rest where "c = l # r # t # b # rest"
    by (cases c; simp; rename_tac c1; case_tac c1; simp; rename_tac c2; case_tac c2; simp;
        rename_tac c3; case_tac c3; simp)
  with sz show ?thesis by simp
qed

lemma SentechCam_init_im_size:
  "map_sum id im_size (SentechCam_init a) =
   set_im_size (case a_crop a of None \<Rightarrow> None | Some c \<Rightarrow> if c = [] then None else Some c)
     (a_resolution a)"
  by (simp add: SentechCam_init_def Let_def split: sum.splits)

lemma SentechCam_init_Inl:
  "SentechCam_init a = Inl e \<longleftrightarrow>
   set_im_size (case a_crop a of None \<Rightarrow> None | Some c \<Rightarrow> if c = [] then None else Some c)
     (a_resolution a) = Inl e"
  by (simp add: SentechCam_init_def Let_def split: sum.splits)

text \<open>
  Claim C4, as the code has it. The constructor of the SDK backend raises
  \<open>CameraError ''Resolution is not set!''\<close> exactly when the resolution is missing
  (\<^verbatim>\<open>None\<close> or empty), whether a crop is configured or not. With a resolution, the
  frame size is \<open>(resolution[0], resolution[1])\<close> when no crop is configured, and
  \<open>(bottom - top, right - left)\<close> of the crop \<open>[left, right, top, bottom]\<close> when one is,
  whatever the resolution says.
\<close>

theorem SentechCam_init_resolution_required:
  "(SentechCam_init a = Inl (CameraError ''Resolution is not set!'')
      \<longleftrightarrow> a_resolution a = None \<or> a_resolution a = Some [])
   \<and> (a_resolution a = Some (w # h # rest) \<and> (a_crop a = None \<or> a_crop a = Some [])
        \<longrightarrow> map_sum id im_size (SentechCam_init a) = Inr (w, h))
   \<and> (a_crop a = Some (l # r # t # b # rest') \<and> a_resolution a = Some res \<and> res \<noteq> []
        \<longrightarrow> map_sum id im_size (SentechCam_init a) = Inr (b - t, r - l))"
proof (intro conjI impI)
  show "SentechCam_init a = Inl (CameraError ''Resolution is not set!'')
      \<longleftrightarrow> a_resolution a = None \<or> a_resolution a = Some []"
    by (simp only: SentechCam_init_Inl set_im_size_CameraError_iff)
next
  assume "a_resolution a = Some (w # h # rest) \<and> (a_crop a = None \<or> a_crop a = Some [])"
  then show "map_sum id im_size (SentechCam_init a) = Inr (w, h)"
    by (auto simp: SentechCam_init_im_size set_im_size_resolution)
next
  assume "a_crop a = Some (l # r # t # b # rest') \<and> a_resolution a = Some res \<and> res \<noteq> []"
  then show "map_sum id im_size (SentechCam_init a) = Inr (b - t, r - l)"
    by (auto simp: SentechCam_init_im_size set_im_size_crop)
qed

text \<open>
  Claim C4 as stated fails: with a crop rectangle and no resolution the constructor
  raises, although a crop is available.
\<close>

theorem SentechCam_init_crop_without_resolution:
  "SentechCam_init (args0\<lparr> a_resolution := None, a_crop := Some [0, 640, 0, 480] \<rparr>)
     = Inl (CameraError ''Resolution is not set!'')
   \<and> a_crop (args0\<lparr> a_resolution := None, a_crop := Some [0, 640, 0, 480] \<rparr>) = Some [0, 640, 0, 480]"
  by (simp add: SentechCam_init_def set_im_size_def args0_def)

text \<open>
  For C4: a resolution alone gives \<open>(640, 480)\<close>; the same resolution with the
  full-frame crop gives \<open>(480, 640)\<close>.
\<close>

theorem SentechCam_init_resolution_required_witness:
  "SentechCam_init args0 \<noteq> Inl (CameraError ''Resolution is not set!'')
   \<and> map_sum id im_size (SentechCam_init args0) = Inr (640, 480)
   \<and> map_sum id im_size (SentechCam_init (args0\<lparr> a_crop := Some [0, 640, 0, 480] \<rparr>)) = Inr (480, 640)"
  using SentechCam_init_resolution_required [of args0 640 480 "[]" 0 0 0 0 "[]" "[]"]
    SentechCam_init_resolution_required [of "args0\<lparr> a_crop := Some [0, 640, 0, 480] \<rparr>" 0 0 "[]" 0 640 0 480 "[]" "[640, 480]"]
  by (simp add: args0_def)

text \<open>
  Claim C10. After a successful construction, without a crop \<^verbatim>\<open>im_size\<close> is the
  resolution's first two entries in their order, (width, height); with a crop
  \<open>[left, right, top, bottom]\<close> it is \<open>(bottom - top, right - left)\<close>, (height, width).
  \<^verbatim>\<open>set_capture_device\<close> sends \<^verbatim>\<open>im_size\<close> as it is to the handle's image shape.
\<close>

theorem im_size_axis_order:
  assumes "SentechCam_init a = Inr s"
  shows "(case crop s of
            None \<Rightarrow> (a_crop a = None \<or> a_crop a = Some []) \<and>
                    (\<exists>w h rest. a_resolution a = Some (w # h # rest) \<and> im_size s = (w, h))
          | Some c \<Rightarrow> a_crop a = Some c \<and>
                    (\<exists>l r t b rest. c = l # r # t # b # rest \<and> im_size s = (b - t, r - l)))
         \<and> h_image_shape (set_capture_device s) = Some (im_size s)"
proof -
  let ?c = "case a_crop a of None \<Rightarrow> None | Some c \<Rightarrow> if c = [] then None else Some c"
  from assms have sz: "set_im_size ?c (a_resolution a) = Inr (im_size s)"
    using SentechCam_init_im_size [of a] by simp
  from assms have cr: "crop s = ?c"
    by (auto simp: SentechCam_init_def Let_def split: sum.splits)
  have shape: "h_image_shape (set_capture_device s) = Some (im_size s)"
    by (simp add: set_capture_device_def Let_def split: option.splits)
  show ?thesis
  proof (cases "crop s")
    case None
    with cr sz have "set_im_size None (a_resolution a) = Inr (im_size s)" by simp
    from set_im_size_Inr_None [OF this] have
      "\<exists>w h rest. a_resolution a = Some (w # h # rest) \<and> im_size s = (w, h)" .
    moreover from None cr have "a_crop a = None \<or> a_crop a = Some []"
      by (auto split: option.splits if_splits)
    ultimately show ?thesis using None shape by simp
  next
    case (Some c)
    with cr sz have "set_im_size (Some c) (a_resolution a) = Inr (im_size s)" by simp
    from set_im_size_Inr_Some [OF this] have
      "\<exists>l r t b rest. c = l # r # t # b # rest \<and> im_size s = (b - t, r - l)" .
    moreover from Some cr have "a_crop a = Some c"
      by (auto split: option.splits if_splits)
    ultimately show ?thesis using Some shape by simp
  qed
qed

text \<open>For C10: the two paths on the same 640 by 480 resolution.\<close>

theorem im_size_axis_order_witness:
  "(\<exists>s. SentechCam_init args0 = Inr s \<and> im_size s = (640, 480)
        \<and> h_image_shape (set_capture_device s) = Some (640, 480))
   \<and> (\<exists>s. SentechCam_init (args0\<lparr> a_crop := Some [0, 640, 0, 480] \<rparr>) = Inr s
        \<and> im_size s = (480, 640)
        \<and> h_image_shape (set_capture_device s) = Some (480, 640))"
proof -
  obtain s1 where s1: "SentechCam_init args0 = Inr s1"
    by (simp add: SentechCam_init_def set_im_size_def bind_err_def py_get_def args0_def)
  obtain s2 where s2: "SentechCam_init (args0\<lparr> a_crop := Some [0, 640, 0, 480] \<rparr>) = Inr s2"
    by (simp add: SentechCam_init_def set_im_size_def bind_err_def py_get_def args0_def)
  from im_size_axis_order [OF s1] s1 have "im_size s1 = (640, 480)
      \<and> h_image_shape (set_capture_device s1) = Some (640, 480)"
    by (auto simp: SentechCam_init_def set_im_size_def bind_err_def py_get_def args0_def
        split: option.splits)
  moreover from im_size_axis_order [OF s2] s2 have "im_size s2 = (480, 640)
      \<and> h_image_shape (set_capture_device s2) = Some (480, 640)"
    by (auto simp: SentechCam_init_def set_im_size_def bind_err_def py_get_def args0_def
        split: option.splits)
  ultimately show ?thesis using s1 s2 by blast
qed

text \<open>
  Claim C5. With the file-source marker \<open>-1\<close> as device the constructor of the generic
  video backend raises, and no object exists afterwards; but what it raises is NameError,
  not \<^verbatim>\<open>CameraError\<close>: the class named in the \<^verbatim>\<open>raise\<close> statement is not bound in the
  module.
\<close>

theorem Mac_OpenCVCam_init_file_marker:
  "Mac_OpenCVCam_init Camera_init (a\<lparr> m_device := - 1 \<rparr>) = Inl (NameError ''DLCLiveCameraError'')"
  by (simp add: Mac_OpenCVCam_init_def)

lemma SentechCam_init_args0: "SentechCam_init args0 = Inr cam0"
  by (simp add: SentechCam_init_def set_im_size_def bind_err_def py_get_def args0_def cam0_def)

section \<open>The throttled poll\<close>

text \<open>
  One step of the loop of \<^verbatim>\<open>SentechCam.get_image_on_time\<close>, the call's result when some
  reading of the clock passes the deadline, and the converse: a call that returns has
  found such a reading, and all readings before it did not pass.
\<close>

lemma poll_skip:
  "\<not> clock (ticks w) > next_frame s \<Longrightarrow>
   SentechCam_get_image_on_time clock cap w s =
   SentechCam_get_image_on_time clock cap (w\<lparr> ticks := Suc (ticks w) \<rparr>) s"
  by (subst SentechCam_get_image_on_time.simps) (simp add: Let_def)

lemma poll_hit:
  "clock (ticks w) > next_frame s \<Longrightarrow>
   SentechCam_get_image_on_time clock cap w s =
   Some (acquire (clock (ticks w)) cap (w\<lparr> ticks := Suc (ticks w) \<rparr>) s)"
  by (subst SentechCam_get_image_on_time.simps) (simp add: Let_def)

lemma poll_total:
  "(\<forall>k<n. \<not> clock (ticks w + k) > next_frame s) \<Longrightarrow> clock (ticks w + n) > next_frame s \<Longrightarrow>
   SentechCam_get_image_on_time clock cap w s =
   Some (acquire (clock (ticks w + n)) cap (w\<lparr> ticks := Suc (ticks w + n) \<rparr>) s)"
proof (induction n arbitrary: w)
  case 0
  then show ?case by (simp add: poll_hit)
next
  case (Suc n)
  let ?w = "w\<lparr> ticks := Suc (ticks w) \<rparr>"
  from Suc.prems(1) have "\<not> clock (ticks w + 0) > next_frame s" by blast
  then have "\<not> clock (ticks w) > next_frame s" by simp
  then have eq: "SentechCam_get_image_on_time clock cap w s = SentechCam_get_image_on_time clock cap ?w s"
    by (rule poll_skip)
  have a: "\<forall>k<n. \<not> clock (ticks ?w + k) > next_frame s"
  proof (intro allI impI)
    fix k assume "k < n"
    then have "Suc k < Suc n" by simp
    with Suc.prems(1) have "\<not> clock (ticks w + Suc k) > next_frame s" by blast
    then show "\<not> clock (ticks ?w + k) > next_frame s" by simp
  qed
  have b: "clock (ticks ?w + n) > next_frame s" using Suc.prems(2) by simp
  from Suc.IH[OF a b] eq show ?case by simp
qed

lemma poll_partial:
  "SentechCam_get_image_on_time clock cap w s = Some r \<Longrightarrow>
   \<exists>n. (\<forall>k<n. \<not> clock (ticks w + k) > next_frame s) \<and> clock (ticks w + n) > next_frame s \<and>
       r = acquire (clock (ticks w + n)) cap (w\<lparr> ticks := Suc (ticks w + n) \<rparr>) s"
proof (induction rule: SentechCam_get_image_on_time.raw_induct[rotated 1, consumes 1, case_names step])
  case (step f clock cap w s r)
  let ?w = "w\<lparr> ticks := Suc (ticks w) \<rparr>"
  show ?case
  proof (cases "clock (ticks w) > next_frame s")
    case True
    with step(2) have "r = acquire (clock (ticks w)) cap ?w s" by (simp add: Let_def)
    with True show ?thesis by (intro exI[of _ 0]) simp
  next
    case False
    with step(2) have "f clock cap ?w s = Some r" by (simp add: Let_def)
    from step(1)[OF this] obtain n where
      nn: "(\<forall>k<n. \<not> clock (ticks ?w + k) > next_frame s) \<and> clock (ticks ?w + n) > next_frame s \<and>
         r = acquire (clock (ticks ?w + n)) cap (?w\<lparr> ticks := Suc (ticks ?w + n) \<rparr>) s" ..
    from nn have n1: "\<forall>k<n. \<not> clock (ticks ?w + k) > next_frame s" by (rule conjunct1)
    from nn have n2: "clock (ticks ?w + n) > next_frame s" by simp
    from nn have n3: "r = acquire (clock (ticks ?w + n)) cap (?w\<lparr> ticks := Suc (ticks ?w + n) \<rparr>) s" by simp
    have "\<forall>k<Suc n. \<not> clock (ticks w + k) > next_frame s"
    proof (intro allI impI)
      fix k assume k: "k < Suc n"
      show "\<not> clock (ticks w + k) > next_frame s"
      proof (cases k)
        case 0 with False show ?thesis by simp
      next
        case (Suc j)
        with k have "j < n" by simp
        with n1 have "\<not> clock (ticks ?w + j) > next_frame s" by blast
        with Suc show ?thesis by simp
      qed
    qed
    moreover have "clock (ticks w + Suc n) > next_frame s" using n2 by simp
    moreover have "r = acquire (clock (ticks w + Suc n)) cap (w\<lparr> ticks := Suc (ticks w + Suc n) \<rparr>) s"
      using n3 by simp
    ultimately show ?thesis by (intro exI[of _ "Suc n"] conjI)
  qed
qed


text \<open>The call returns as soon as some reading of the clock passes the deadline.\<close>

lemma get_image_on_time_returns:
  assumes "\<exists>j. next_frame s < clock (ticks w + j)"
  shows "\<exists>r. SentechCam_get_image_on_time clock cap w s = Some r"
proof -
  define n where "n = (LEAST j. next_frame s < clock (ticks w + j))"
  from assms have hit: "next_frame s < clock (ticks w + n)"
    unfolding n_def by (rule LeastI_ex)
  have "\<forall>k<n. \<not> next_frame s < clock (ticks w + k)"
    unfolding n_def using not_less_Least by blast
  from poll_total [OF this hit] show ?thesis by blast
qed

lemma acquire_Inr:
  "acquire t cap w s = (Inr (frame, ts), s', w') \<Longrightarrow>
   \<exists>F raw. fps s = Some F \<and> F \<noteq> 0 \<and> cap (reads w) = Inr raw \<and> frame = np_uint8 raw \<and> ts = t
     \<and> s' = s\<lparr> next_frame := max (next_frame s + 1 / F) (t + 0.5 / F) \<rparr>
     \<and> w' = w\<lparr> reads := Suc (reads w) \<rparr>"
  by (auto simp: acquire_def get_image_def split: sum.splits option.splits if_splits)

lemma acquire_Inl:
  "acquire t cap w s = (Inl e, s', w') \<Longrightarrow> s' = s \<and> w' = w\<lparr> reads := Suc (reads w) \<rparr>"
  by (auto simp: acquire_def get_image_def split: sum.splits option.splits if_splits)


lemma spec_poll_skip:
  "\<not> clock (ticks w) > next_frame s \<Longrightarrow>
   spec_get_image_on_time clock cap w s =
   spec_get_image_on_time clock cap (w\<lparr> ticks := Suc (ticks w) \<rparr>) s"
  by (subst spec_get_image_on_time.simps) (simp add: Let_def)

lemma spec_poll_hit:
  "clock (ticks w) > next_frame s \<Longrightarrow>
   spec_get_image_on_time clock cap w s =
   Some (spec_acquire clock (clock (ticks w)) cap (w\<lparr> ticks := Suc (ticks w) \<rparr>) s)"
  by (subst spec_get_image_on_time.simps) (simp add: Let_def)

lemmas sentech_eval = poll_skip poll_hit acquire_def get_image_def

text \<open>
  Claim C2. After a call that returned a frame, with \<^verbatim>\<open>fps\<close> \<open>= F\<close>, the new deadline is
  \<open>max (next_frame + 1/F) (now + 0.5/F)\<close>, where \<open>now\<close> is the first reading of the clock
  that passed the old deadline; so the new deadline is no earlier than half a period
  after \<open>now\<close>.
\<close>

theorem next_frame_deadline:
  assumes "SentechCam_get_image_on_time clock cap w s = Some (Inr (frame, timestamp), s', w')"
    and "fps s = Some F"
  shows "\<exists>n. (\<forall>k<n. \<not> next_frame s < clock (ticks w + k)) \<and> next_frame s < clock (ticks w + n)
           \<and> next_frame s' = max (next_frame s + 1 / F) (clock (ticks w + n) + 0.5 / F)
           \<and> clock (ticks w + n) + 0.5 / F \<le> next_frame s'"
proof -
  from poll_partial [OF assms(1)] obtain n where
    n: "(\<forall>k<n. \<not> clock (ticks w + k) > next_frame s) \<and> clock (ticks w + n) > next_frame s \<and>
       (Inr (frame, timestamp), s', w') =
         acquire (clock (ticks w + n)) cap (w\<lparr> ticks := Suc (ticks w + n) \<rparr>) s" ..
  then have "acquire (clock (ticks w + n)) cap (w\<lparr> ticks := Suc (ticks w + n) \<rparr>) s
      = (Inr (frame, timestamp), s', w')" by simp
  from acquire_Inr [OF this] assms(2)
  have "next_frame s' = max (next_frame s + 1 / F) (clock (ticks w + n) + 0.5 / F)"
    by auto
  with n show ?thesis by (intro exI [of _ n]) simp
qed

text \<open>
  For C2: at ten frames a second the reading 0.04 passes the deadline 0, and the new
  deadline is \<open>max 0.1 0.09\<close>.
\<close>

theorem next_frame_deadline_witness:
  "SentechCam_get_image_on_time clock0 grab0 w0 cam0
     = Some (Inr (Frame2 2 [[1, 2], [3, 4]], 4 / 100), cam0\<lparr> next_frame := 1 / 10 \<rparr>,
             \<lparr> ticks = 2, reads = 1 \<rparr>)
   \<and> fps cam0 = Some 10
   \<and> (\<exists>n. next_frame cam0 < clock0 (ticks w0 + n)
          \<and> next_frame (cam0\<lparr> next_frame := 1 / 10 \<rparr>)
              = max (next_frame cam0 + 1 / 10) (clock0 (ticks w0 + n) + 0.5 / 10)
          \<and> clock0 (ticks w0 + n) + 0.5 / 10 \<le> next_frame (cam0\<lparr> next_frame := 1 / 10 \<rparr>))"
proof -
  have call: "SentechCam_get_image_on_time clock0 grab0 w0 cam0
     = Some (Inr (Frame2 2 [[1, 2], [3, 4]], 4 / 100), cam0\<lparr> next_frame := 1 / 10 \<rparr>,
             \<lparr> ticks = 2, reads = 1 \<rparr>)"
    by (simp add: sentech_eval world_defs)
  have rate: "fps cam0 = Some 10" by (simp add: cam0_def)
  from next_frame_deadline [OF call rate] call rate show ?thesis by blast
qed

text \<open>
  Claim C6, as the code has it. The time stamp returned with a frame is the reading of the
  clock that passed the deadline, taken before the acquisition and before the update of
  \<^verbatim>\<open>next_frame\<close>; it is the last reading the call takes, so none is taken after the
  update or after the acquisition.
\<close>

theorem timestamp_is_deadline_reading:
  assumes "SentechCam_get_image_on_time clock cap w s = Some (Inr (frame, timestamp), s', w')"
  shows "\<exists>n. (\<forall>k<n. \<not> next_frame s < clock (ticks w + k)) \<and> next_frame s < clock (ticks w + n)
           \<and> timestamp = clock (ticks w + n) \<and> ticks w' = Suc (ticks w + n)"
proof -
  from poll_partial [OF assms(1)] obtain n where
    n: "(\<forall>k<n. \<not> clock (ticks w + k) > next_frame s) \<and> clock (ticks w + n) > next_frame s \<and>
       (Inr (frame, timestamp), s', w') =
         acquire (clock (ticks w + n)) cap (w\<lparr> ticks := Suc (ticks w + n) \<rparr>) s" ..
  then have "acquire (clock (ticks w + n)) cap (w\<lparr> ticks := Suc (ticks w + n) \<rparr>) s
      = (Inr (frame, timestamp), s', w')" by simp
  from acquire_Inr [OF this]
  have "timestamp = clock (ticks w + n) \<and> ticks w' = Suc (ticks w + n)"
    by auto
  with n show ?thesis by (intro exI [of _ n]) simp
qed

text \<open>
  Claim C6 as stated fails: on a clock that advances by 0.04 s with each reading the code
  stamps the frame with 0.04, the reading that passed the deadline, and has read the
  clock twice; a stamp taken after the update is the third reading, 0.08.
\<close>

theorem timestamp_read_before_acquisition:
  "SentechCam_get_image_on_time clock0 grab0 w0 cam0
     = Some (Inr (Frame2 2 [[1, 2], [3, 4]], 4 / 100), cam0\<lparr> next_frame := 1 / 10 \<rparr>,
             \<lparr> ticks = 2, reads = 1 \<rparr>)
   \<and> spec_get_image_on_time clock0 grab0 w0 cam0
     = Some (Inr (Frame2 2 [[1, 2], [3, 4]], 8 / 100), cam0\<lparr> next_frame := 1 / 10 \<rparr>,
             \<lparr> ticks = 3, reads = 1 \<rparr>)
   \<and> SentechCam_get_image_on_time clock0 grab0 w0 cam0
     \<noteq> spec_get_image_on_time clock0 grab0 w0 cam0"
  by (simp add: sentech_eval spec_poll_skip spec_poll_hit spec_acquire_def world_defs)

text \<open>
  For C6: the call above, whose stamp is the second reading.
\<close>

theorem timestamp_is_deadline_reading_witness:
  "SentechCam_get_image_on_time clock0 grab0 w0 cam0
     = Some (Inr (Frame2 2 [[1, 2], [3, 4]], 4 / 100), cam0\<lparr> next_frame := 1 / 10 \<rparr>,
             \<lparr> ticks = 2, reads = 1 \<rparr>)
   \<and> (\<exists>n. next_frame cam0 < clock0 (ticks w0 + n) \<and> 4 / 100 = clock0 (ticks w0 + n)
          \<and> ticks \<lparr> ticks = 2, reads = 1 \<rparr> = Suc (ticks w0 + n))"
proof -
  have call: "SentechCam_get_image_on_time clock0 grab0 w0 cam0
     = Some (Inr (Frame2 2 [[1, 2], [3, 4]], 4 / 100), cam0\<lparr> next_frame := 1 / 10 \<rparr>,
             \<lparr> ticks = 2, reads = 1 \<rparr>)"
    by (simp add: sentech_eval world_defs)
  from timestamp_is_deadline_reading [OF call] call show ?thesis by blast
qed


lemma get_image_on_time_state:
  assumes "SentechCam_get_image_on_time clock cap w s = Some (r, s', w')"
  shows "fps s' = fps s"
proof -
  from poll_partial [OF assms] obtain n where
    "(\<forall>k<n. \<not> clock (ticks w + k) > next_frame s) \<and> clock (ticks w + n) > next_frame s \<and>
       (r, s', w') = acquire (clock (ticks w + n)) cap (w\<lparr> ticks := Suc (ticks w + n) \<rparr>) s" ..
  then have a: "acquire (clock (ticks w + n)) cap (w\<lparr> ticks := Suc (ticks w + n) \<rparr>) s = (r, s', w')"
    by simp
  show ?thesis
  proof (cases r)
    case (Inl e)
    with a acquire_Inl show ?thesis by fastforce
  next
    case (Inr p)
    obtain f t where "p = (f, t)" by (cases p)
    with a Inr have "acquire (clock (ticks w + n)) cap (w\<lparr> ticks := Suc (ticks w + n) \<rparr>) s
      = (Inr (f, t), s', w')" by simp
    from acquire_Inr [OF this] show ?thesis by auto
  qed
qed

lemma get_image_on_time_Inl_state:
  assumes "SentechCam_get_image_on_time clock cap w s = Some (Inl e, s', w')"
  shows "s' = s"
proof -
  from poll_partial [OF assms] obtain n where
    "(\<forall>k<n. \<not> clock (ticks w + k) > next_frame s) \<and> clock (ticks w + n) > next_frame s \<and>
       (Inl e, s', w') = acquire (clock (ticks w + n)) cap (w\<lparr> ticks := Suc (ticks w + n) \<rparr>) s" ..
  then have a: "acquire (clock (ticks w + n)) cap (w\<lparr> ticks := Suc (ticks w + n) \<rparr>) s = (Inl e, s', w')"
    by simp
  from acquire_Inl [OF this] show ?thesis by simp
qed

lemma get_image_on_time_Inr_bounds:
  assumes "SentechCam_get_image_on_time clock cap w s = Some (Inr (frame, ts), s', w')"
    and "fps s = Some F" and "0 < F"
  shows "next_frame s < ts \<and> ts + 0.5 / F \<le> next_frame s' \<and> next_frame s \<le> next_frame s'"
proof -
  from poll_partial [OF assms(1)] obtain n where
    n: "(\<forall>k<n. \<not> clock (ticks w + k) > next_frame s) \<and> clock (ticks w + n) > next_frame s \<and>
       (Inr (frame, ts), s', w') = acquire (clock (ticks w + n)) cap (w\<lparr> ticks := Suc (ticks w + n) \<rparr>) s" ..
  then have a: "acquire (clock (ticks w + n)) cap (w\<lparr> ticks := Suc (ticks w + n) \<rparr>) s
      = (Inr (frame, ts), s', w')" by simp
  from acquire_Inr [OF this] assms(2)
  have ts: "ts = clock (ticks w + n)"
    and nf: "next_frame s' = max (next_frame s + 1 / F) (ts + 0.5 / F)" by auto
  from n ts have "next_frame s < ts" by simp
  moreover from nf have "ts + 0.5 / F \<le> next_frame s'" by simp
  moreover have "0 \<le> 1 / F" using assms(3) by simp
  then have "next_frame s \<le> next_frame s'" unfolding nf by (simp add: le_max_iff_disj)
  ultimately show ?thesis by simp
qed

lemma run_timestamps:
  assumes "fps s = Some F" and "0 < F"
    and "SentechCam_run clock cap n w s = Some tss"
  shows "list_all (\<lambda>t. next_frame s < t) tss \<and> successively (\<lambda>a b. 0.5 / F \<le> b - a) tss"
  using assms
proof (induction n arbitrary: w s tss)
  case 0
  then show ?case by simp
next
  case (Suc n)
  from Suc.prems(3) obtain r s' w' where
    g: "SentechCam_get_image_on_time clock cap w s = Some (r, s', w')"
    by (cases "SentechCam_get_image_on_time clock cap w s") auto
  from get_image_on_time_state [OF g] Suc.prems(1) have fps': "fps s' = Some F" by simp
  show ?case
  proof (cases r)
    case (Inl e)
    with g get_image_on_time_Inl_state have "s' = s" by blast
    moreover from Suc.prems(3) g Inl have "SentechCam_run clock cap n w' s' = Some tss" by simp
    ultimately show ?thesis using Suc.IH [OF fps' Suc.prems(2)] by simp
  next
    case (Inr p)
    obtain f ts where p: "p = (f, ts)" by (cases p)
    from Suc.prems(3) g Inr p obtain rest where
      rest: "SentechCam_run clock cap n w' s' = Some rest" and tss: "tss = ts # rest"
      by auto
    from g Inr p have "SentechCam_get_image_on_time clock cap w s = Some (Inr (f, ts), s', w')"
      by simp
    from get_image_on_time_Inr_bounds [OF this Suc.prems(1) Suc.prems(2)]
    have b1: "next_frame s < ts" and b2: "ts + 0.5 / F \<le> next_frame s'"
      and b3: "next_frame s \<le> next_frame s'" by simp_all
    from Suc.IH [OF fps' Suc.prems(2) rest]
    have ih1: "list_all (\<lambda>t. next_frame s' < t) rest"
      and ih2: "successively (\<lambda>a b. 0.5 / F \<le> b - a) rest" by simp_all
    from ih1 b3 have "list_all (\<lambda>t. next_frame s < t) rest"
      by (induction rest) auto
    with b1 tss have A: "list_all (\<lambda>t. next_frame s < t) tss" by simp
    have "successively (\<lambda>a b. 0.5 / F \<le> b - a) (ts # rest)"
    proof (cases rest)
      case Nil
      then show ?thesis by simp
    next
      case (Cons t' rest')
      with ih1 have "next_frame s' < t'" by simp
      with b2 have "0.5 / F \<le> t' - ts" by simp
      with ih2 Cons show ?thesis by simp
    qed
    with A tss show ?thesis by simp
  qed
qed

text \<open>On a clock that passes every bound, a run of any length returns.\<close>

lemma run_returns:
  assumes "\<forall>t i. \<exists>j. t < clock (i + j)"
  shows "\<exists>tss. SentechCam_run clock cap n w s = Some tss"
proof (induction n arbitrary: w s)
  case 0
  show ?case by simp
next
  case (Suc n)
  from assms have "\<exists>j. next_frame s < clock (ticks w + j)" by blast
  from get_image_on_time_returns [OF this]
  obtain r s' w' where g: "SentechCam_get_image_on_time clock cap w s = Some (r, s', w')"
    by (metis prod_cases3)
  from Suc.IH [of w' s'] obtain rest where rest: "SentechCam_run clock cap n w' s' = Some rest" ..
  show ?case
  proof (cases r)
    case (Inl e)
    with g rest show ?thesis by simp
  next
    case (Inr p)
    with g rest show ?thesis by (cases p) simp
  qed
qed

text \<open>
  Claim C3. In a run of calls one after the other at \<^verbatim>\<open>fps\<close> \<open>= F > 0\<close>, the time stamps
  of any two frames returned in succession differ by at least \<open>0.5/F\<close>.
\<close>

theorem successive_timestamps:
  assumes "fps s = Some F" and "0 < F"
    and "SentechCam_run clock cap n w s = Some tss"
  shows "successively (\<lambda>a b. 0.5 / F \<le> b - a) tss"
  using run_timestamps [OF assms] by simp

text \<open>
  For C3: three calls at ten frames a second return frames stamped 0.04, 0.12 and 0.24.
\<close>

theorem successive_timestamps_witness:
  "fps cam0 = Some 10 \<and> (0 :: real) < 10
   \<and> SentechCam_run clock0 grab0 3 w0 cam0 = Some [4 / 100, 12 / 100, 24 / 100]
   \<and> successively (\<lambda>a b. 0.5 / 10 \<le> b - a) [4 / 100, 12 / 100, 24 / 100 :: real]"
proof -
  have rate: "fps cam0 = Some 10" by (simp add: cam0_def)
  have run: "SentechCam_run clock0 grab0 3 w0 cam0 = Some [4 / 100, 12 / 100, 24 / 100]"
    by (simp add: eval_nat_numeral sentech_eval world_defs)
  from successive_timestamps [OF rate _ run] rate run show ?thesis by simp
qed

section \<open>Normalizing a frame\<close>









lemma cvtColor_swap_channels: "ndim g = 3 \<Longrightarrow> cvtColor_RGB2BGR g = Inr (swap_channels g)"
  by (cases g) simp_all

lemma Mac_get_image_on_time_success:
  assumes "\<not> video s" and "cap (reads w) = (True, raw)"
    and "(case mac_crop s of
            None \<Rightarrow> Inr (case mac_rotate s of
                           None \<Rightarrow> raw
                         | Some d \<Rightarrow> if d \<noteq> 0 then rotate_bound raw d else raw)
          | Some c \<Rightarrow>
              if c \<noteq> [] then
                bind_err (py_get c 2) (\<lambda>c2.
                bind_err (py_get c 3) (\<lambda>c3.
                bind_err (py_get c 0) (\<lambda>c0.
                bind_err (py_get c 1) (\<lambda>c1.
                  Inr (np_slice2 (case mac_rotate s of
                           None \<Rightarrow> raw
                         | Some d \<Rightarrow> if d \<noteq> 0 then rotate_bound raw d else raw) c2 c3 c0 c1)))))
              else Inr (case mac_rotate s of
                           None \<Rightarrow> raw
                         | Some d \<Rightarrow> if d \<noteq> 0 then rotate_bound raw d else raw)) = Inr cropped"
  shows "Mac_OpenCVCam_get_image_on_time rotate_bound clock cap w s =
         Some (Inr (if ndim cropped = 3 \<and> cv2_color s = 1 then swap_channels cropped else cropped,
                    clock (ticks w)),
               s\<lparr> last_cap_read := Some (clock (ticks w)) \<rparr>,
               w\<lparr> ticks := Suc (ticks w), reads := Suc (reads w) \<rparr>)"
  using assms
  by (simp add: Mac_OpenCVCam_get_image_on_time_def Let_def cvtColor_swap_channels)



text \<open>
  Claim C8. Without rotation (\<^verbatim>\<open>None\<close> or 0) and without crop, the frame returned is the
  frame read, with the channel order reversed exactly when the frame has a colour axis
  and the device's mode is 1; a frame of two dimensions is returned as it is.
\<close>

theorem identity_without_rotation_and_crop:
  assumes "\<not> video s" and "cap (reads w) = (True, f)"
    and "mac_rotate s = None \<or> mac_rotate s = Some 0"
    and "mac_crop s = None \<or> mac_crop s = Some []"
  shows "Mac_OpenCVCam_get_image_on_time rotate_bound clock cap w s =
           Some (Inr (if ndim f = 3 \<and> cv2_color s = 1 then swap_channels f else f,
                      clock (ticks w)),
                 s\<lparr> last_cap_read := Some (clock (ticks w)) \<rparr>,
                 w\<lparr> ticks := Suc (ticks w), reads := Suc (reads w) \<rparr>)"
  using assms(1-2)
  by (rule Mac_get_image_on_time_success) (use assms(3-4) in auto)

text \<open>
  For C8: a colour frame in mode 1, the same frame in mode 0, and a grey frame.
\<close>

theorem identity_without_rotation_and_crop_witness:
  "Mac_OpenCVCam_get_image_on_time no_rotation clock0 read_rgb w0 mac0
     = Some (Inr (swap_channels rgb1, 0), mac0\<lparr> last_cap_read := Some 0 \<rparr>,
             \<lparr> ticks = 1, reads = 1 \<rparr>)
   \<and> Mac_OpenCVCam_get_image_on_time no_rotation clock0 read_rgb w0 (mac0\<lparr> cv2_color := 0 \<rparr>)
     = Some (Inr (rgb1, 0), mac0\<lparr> cv2_color := 0, last_cap_read := Some 0 \<rparr>,
             \<lparr> ticks = 1, reads = 1 \<rparr>)
   \<and> Mac_OpenCVCam_get_image_on_time no_rotation clock0 read1 w0 mac0
     = Some (Inr (raw1, 0), mac0\<lparr> last_cap_read := Some 0 \<rparr>, \<lparr> ticks = 1, reads = 1 \<rparr>)"
  using identity_without_rotation_and_crop [of mac0 read_rgb w0 rgb1 no_rotation clock0]
    identity_without_rotation_and_crop [of "mac0\<lparr> cv2_color := 0 \<rparr>" read_rgb w0 rgb1
      no_rotation clock0]
    identity_without_rotation_and_crop [of mac0 read1 w0 raw1 no_rotation clock0]
  by (simp add: mac0_def read_rgb_def read1_def w0_def clock0_def rgb1_def raw1_def)





section \<open>A failed acquisition\<close>



end
